theory Spec2Isabelle
  imports Complex_Main
begin

section \<open>Stock Analyzer: the metrics engine (utils.py)\<close>

subsection \<open>Numbers as pandas and NumPy compute with them\<close>

text \<open>
  \<^verbatim>\<open>calculate_performance_metrics\<close> works on float64 columns. A division by zero there
  raises nothing: NumPy yields an infinity or NaN, and pandas skips NaN in \<^verbatim>\<open>mean\<close>,
  \<^verbatim>\<open>std\<close> and \<^verbatim>\<open>dropna\<close>. The values are therefore modelled with the special values
  written out. A finite value carries a real number and finite arithmetic is exact:
  rounding and overflow to infinity are not modelled. There is one zero, the float
  \<^verbatim>\<open>0.0\<close>. The float \<^verbatim>\<open>-0.0\<close> compares equal to it and, as a denominator, gives the
  infinity of the opposite sign; a statement about every series with a zero denominator
  therefore says that the quotient is NaN or an infinity, and not which infinity.
\<close>

datatype npfloat = Fin real | PosInf | NegInf | NaN

datatype error = IndexError | ConnectionClosed | OperationalError | IntegrityError

fun np_neg :: "npfloat \<Rightarrow> npfloat" where
  "np_neg (Fin a) = Fin (- a)"
| "np_neg PosInf = NegInf"
| "np_neg NegInf = PosInf"
| "np_neg NaN = NaN"

fun np_add :: "npfloat \<Rightarrow> npfloat \<Rightarrow> npfloat" where
  "np_add NaN y = NaN"
| "np_add x NaN = NaN"
| "np_add (Fin a) (Fin b) = Fin (a + b)"
| "np_add PosInf NegInf = NaN"
| "np_add NegInf PosInf = NaN"
| "np_add PosInf y = PosInf"
| "np_add NegInf y = NegInf"
| "np_add x PosInf = PosInf"
| "np_add x NegInf = NegInf"

definition np_sub :: "npfloat \<Rightarrow> npfloat \<Rightarrow> npfloat" where
  "np_sub x y = np_add x (np_neg y)"

fun np_mul :: "npfloat \<Rightarrow> npfloat \<Rightarrow> npfloat" where
  "np_mul NaN y = NaN"
| "np_mul x NaN = NaN"
| "np_mul (Fin a) (Fin b) = Fin (a * b)"
| "np_mul (Fin a) y = (if a = 0 then NaN else if 0 < a then y else np_neg y)"
| "np_mul x (Fin b) = (if b = 0 then NaN else if 0 < b then x else np_neg x)"
| "np_mul PosInf y = y"
| "np_mul NegInf y = np_neg y"

fun np_div :: "npfloat \<Rightarrow> npfloat \<Rightarrow> npfloat" where
  "np_div NaN y = NaN"
| "np_div x NaN = NaN"
| "np_div (Fin a) (Fin b) =
     (if b \<noteq> 0 then Fin (a / b)
      else if a = 0 then NaN
      else if 0 < a then PosInf else NegInf)"
| "np_div (Fin a) y = Fin 0"
| "np_div x (Fin b) = (if 0 \<le> b then x else np_neg x)"
| "np_div x y = NaN"

fun np_sqrt :: "npfloat \<Rightarrow> npfloat" where
  "np_sqrt (Fin a) = (if 0 \<le> a then Fin (sqrt a) else NaN)"
| "np_sqrt PosInf = PosInf"
| "np_sqrt NegInf = NaN"
| "np_sqrt NaN = NaN"

text \<open>The comparison \<^verbatim>\<open>x > y\<close>: false as soon as one side is NaN.\<close>

fun np_gt :: "npfloat \<Rightarrow> npfloat \<Rightarrow> bool" where
  "np_gt NaN y = False"
| "np_gt x NaN = False"
| "np_gt (Fin a) (Fin b) = (b < a)"
| "np_gt x PosInf = False"
| "np_gt NegInf y = False"
| "np_gt PosInf y = True"
| "np_gt x NegInf = True"

text \<open>\<^verbatim>\<open>np.isinf(x)\<close>: the value is an infinity, of either sign.\<close>

definition np_isinf :: "npfloat \<Rightarrow> bool" where
  "np_isinf x \<longleftrightarrow> x = PosInf \<or> x = NegInf"

subsection \<open>Series operations\<close>

text \<open>
  \<^verbatim>\<open>s.iloc[i]\<close>: positional access, a negative position counts from the end, a position
  outside the series raises IndexError.
\<close>

definition iloc :: "'a list \<Rightarrow> int \<Rightarrow> error + 'a" where
  "iloc s i =
     (if 0 \<le> i \<and> i < int (length s) then Inr (s ! nat i)
      else if i < 0 \<and> - int (length s) \<le> i then Inr (s ! nat (int (length s) + i))
      else Inl IndexError)"

definition bind :: "error + 'a \<Rightarrow> ('a \<Rightarrow> error + 'b) \<Rightarrow> error + 'b" where
  "bind m f = (case m of Inl e \<Rightarrow> Inl e | Inr x \<Rightarrow> f x)"

text \<open>\<^verbatim>\<open>s.shift(1)\<close>: every value moves one place down, the first place becomes NaN.\<close>

definition shift1 :: "npfloat list \<Rightarrow> npfloat list" where
  "shift1 s = take (length s) (NaN # s)"

text \<open>\<^verbatim>\<open>s.pct_change()\<close> is \<^verbatim>\<open>s / s.shift(1) - 1\<close>, element by element.\<close>

definition pct_change :: "real list \<Rightarrow> npfloat list" where
  "pct_change cl =
     map (\<lambda>(c, p). np_sub (np_div c p) (Fin 1)) (zip (map Fin cl) (shift1 (map Fin cl)))"

definition dropna :: "npfloat list \<Rightarrow> npfloat list" where
  "dropna s = filter (\<lambda>x. x \<noteq> NaN) s"

definition np_sum :: "npfloat list \<Rightarrow> npfloat" where
  "np_sum s = foldl np_add (Fin 0) s"

text \<open>\<^verbatim>\<open>s.mean()\<close> skips NaN; with no value left the result is NaN.\<close>

definition mean :: "npfloat list \<Rightarrow> npfloat" where
  "mean s =
     (let v = dropna s in
      if v = [] then NaN else np_div (np_sum v) (Fin (real (length v))))"

text \<open>
  \<^verbatim>\<open>s.std()\<close> skips NaN and divides by the count minus one (\<^verbatim>\<open>ddof=1\<close>); with fewer
  than two values left the result is NaN.
\<close>

definition std :: "npfloat list \<Rightarrow> npfloat" where
  "std s =
     (let v = dropna s in
      if length v \<le> 1 then NaN
      else
        let avg = np_div (np_sum v) (Fin (real (length v)));
            sqr = map (\<lambda>x. np_mul (np_sub avg x) (np_sub avg x)) v
        in np_sqrt (np_div (np_sum sqr) (Fin (real (length v - 1)))))"

subsection \<open>The price series and the metrics\<close>

text \<open>
  A row of the frame: its index entry (year, month, day) and its \<^verbatim>\<open>Close\<close>. The other
  columns are not read by the metrics. Closes are finite numbers.
\<close>

type_synonym datetime = "int \<times> nat \<times> nat"

record price_bar =
  bar_date :: datetime
  bar_close :: real

definition datetime_ge :: "datetime \<Rightarrow> datetime \<Rightarrow> bool" where
  "datetime_ge a b =
     (case a of (y1, m1, d1) \<Rightarrow> case b of (y2, m2, d2) \<Rightarrow>
        y2 < y1 \<or> (y1 = y2 \<and> (m2 < m1 \<or> (m1 = m2 \<and> d2 \<le> d1))))"

record metrics =
  daily_returns :: npfloat
  monthly_returns :: npfloat
  ytd_returns :: npfloat
  annual_returns :: npfloat
  volatility :: npfloat
  returns :: "npfloat list"
  sharpe_ratio :: npfloat

text \<open>The expression \<^verbatim>\<open>((a / b) - 1) * 100\<close> of the monthly, YTD and annual returns.\<close>

definition pct_return :: "real \<Rightarrow> real \<Rightarrow> npfloat" where
  "pct_return a b = np_mul (np_sub (np_div (Fin a) (Fin b)) (Fin 1)) (Fin 100)"

text \<open>The column \<^verbatim>\<open>df['daily_return'] = df['Close'].pct_change() * 100\<close>.\<close>

definition daily_return :: "real list \<Rightarrow> npfloat list" where
  "daily_return cl = map (\<lambda>x. np_mul x (Fin 100)) (pct_change cl)"

definition growth :: "real list \<Rightarrow> int \<Rightarrow> int \<Rightarrow> error + npfloat" where
  "growth cl i j = bind (iloc cl i) (\<lambda>a. bind (iloc cl j) (\<lambda>b. Inr (pct_return a b)))"

text \<open>
  The rows \<^verbatim>\<open>df[df.index >= start_of_year]\<close>, where \<^verbatim>\<open>start_of_year\<close> is
  \<^verbatim>\<open>datetime(current_year, 1, 1)\<close>: a filter, which keeps the order of the rows.
\<close>

definition ytd_data :: "int \<Rightarrow> price_bar list \<Rightarrow> price_bar list" where
  "ytd_data current_year df =
     filter (\<lambda>b. datetime_ge (bar_date b) (current_year, 1, 1)) df"

text \<open>
  The blocks of \<^verbatim>\<open>calculate_performance_metrics\<close>, one for each metric, in the order
  of the source. \<open>cl\<close> is the column \<^verbatim>\<open>df['Close']\<close>, \<open>dr\<close> the column
  \<^verbatim>\<open>df['daily_return']\<close>, and the year of \<^verbatim>\<open>datetime.now()\<close> is the parameter
  \<open>current_year\<close>.
\<close>

definition daily_returns_of :: "real list \<Rightarrow> error + npfloat" where
  "daily_returns_of cl =
     (if 1 < length cl then iloc (daily_return cl) (- 1) else Inr (Fin 0))"

definition monthly_returns_of :: "real list \<Rightarrow> error + npfloat" where
  "monthly_returns_of cl =
     (if 30 \<le> length cl then growth cl (- 1) (- 30) else growth cl (- 1) 0)"

definition ytd_returns_of :: "int \<Rightarrow> price_bar list \<Rightarrow> error + npfloat" where
  "ytd_returns_of current_year df =
     (if ytd_data current_year df \<noteq> []
      then growth (map bar_close (ytd_data current_year df)) (- 1) 0
      else Inr (Fin 0))"

definition annual_returns_of :: "real list \<Rightarrow> error + npfloat" where
  "annual_returns_of cl =
     (if 252 < length cl then growth cl (- 1) (- 252) else growth cl (- 1) 0)"

definition volatility_of :: "npfloat list \<Rightarrow> npfloat" where
  "volatility_of dr = np_mul (std dr) (Fin (sqrt 252))"

definition sharpe_ratio_of :: "npfloat list \<Rightarrow> npfloat" where
  "sharpe_ratio_of dr =
     (let avg_daily_return = mean dr;
          daily_std = std dr
      in if np_gt daily_std (Fin 0)
         then np_mul (np_div avg_daily_return daily_std) (Fin (sqrt 252))
         else Fin 0)"

text \<open>
  \<^verbatim>\<open>calculate_performance_metrics(df)\<close>: the blocks run in order, so the first one that
  raises decides the result and no dictionary is returned.
\<close>

definition calculate_performance_metrics :: "int \<Rightarrow> price_bar list \<Rightarrow> error + metrics" where
  "calculate_performance_metrics current_year df =
     (let cl = map bar_close df;
          dr = daily_return cl
      in
      bind (daily_returns_of cl) (\<lambda>daily.
      bind (monthly_returns_of cl) (\<lambda>monthly.
      bind (ytd_returns_of current_year df) (\<lambda>ytd.
      bind (annual_returns_of cl) (\<lambda>annual.
      Inr \<lparr>daily_returns = daily,
           monthly_returns = monthly,
           ytd_returns = ytd,
           annual_returns = annual,
           volatility = volatility_of dr,
           returns = dropna dr,
           sharpe_ratio = sharpe_ratio_of dr\<rparr>)))))"

section \<open>Stock Analyzer: the persistence layer (database.py)\<close>

subsection \<open>Tables\<close>

text \<open>
  The three tables of the schema, each a list of rows in insertion order. A timestamp
  (\<^verbatim>\<open>datetime.now()\<close>) is a number handed to the operation that needs it.
\<close>

type_synonym timestamp = nat

record watchlist_row =
  w_id :: int
  w_user_id :: string
  w_ticker :: string
  added_at :: timestamp

record search_row =
  s_id :: int
  s_user_id :: string
  s_ticker :: string
  searched_at :: timestamp

text \<open>
  The dictionary the dashboard passes to \<^verbatim>\<open>update_user_preferences\<close> has the five
  preference keys. A row of \<^verbatim>\<open>user_preferences\<close> adds the key columns and the time
  stamp; the dictionary \<^verbatim>\<open>get_user_preferences\<close> returns adds the keys it may or may
  not hold.
\<close>

record preferences =
  default_ticker :: string
  default_period :: string
  theme :: string
  show_ma50 :: int
  show_ma200 :: int

record preference_row = preferences +
  pref_id :: int
  pref_user_id :: string
  updated_at :: timestamp

record preferences_dict = preferences +
  key_id :: "int option"
  key_user_id :: "string option"
  key_updated_at :: "timestamp option"

record database =
  watchlists :: "watchlist_row list"
  search_history :: "search_row list"
  user_preferences :: "preference_row list"

subsection \<open>Storage calls and their failures\<close>

text \<open>
  Every call into the storage may raise. Which one does is a parameter of each operation:
  a function from the call to the exception it raises, if any. \<open>ConnectionClosed\<close> stands
  for an exception whose message contains \<^verbatim>\<open>closed\<close>, the case \<^verbatim>\<open>get_connection\<close>
  tests for. The calls are connecting (and connecting again), executing the query,
  executing the insert, update or delete, and committing; leaving the \<^verbatim>\<open>with\<close> block,
  which closes the connection, is not a call that fails here.
\<close>

datatype step = Connect | Reconnect | Query | Write | Commit

type_synonym faults = "step \<Rightarrow> error option"

definition attempt :: "faults \<Rightarrow> step \<Rightarrow> error + unit" where
  "attempt F s = (case F s of None \<Rightarrow> Inr () | Some e \<Rightarrow> Inl e)"

text \<open>
  \<^verbatim>\<open>get_connection\<close>: when connecting fails with a closed engine, the engine is made
  again and connecting is tried once more; any other exception is raised again.
\<close>

definition get_connection :: "faults \<Rightarrow> error + unit" where
  "get_connection F =
     (case F Connect of
        None \<Rightarrow> Inr ()
      | Some e \<Rightarrow> if e = ConnectionClosed then attempt F Reconnect else Inl e)"

text \<open>The row id SQLite gives to a new row: one more than the largest in the table.\<close>

fun next_rowid :: "int list \<Rightarrow> int" where
  "next_rowid [] = 1"
| "next_rowid (i # js) = fold max js i + 1"

text \<open>Python's truth value of \<^verbatim>\<open>existing_id\<close>: \<^verbatim>\<open>None\<close> and \<^verbatim>\<open>0\<close> are false.\<close>

fun truthy :: "int option \<Rightarrow> bool" where
  "truthy None = False"
| "truthy (Some i) = (i \<noteq> 0)"

text \<open>An insert into \<^verbatim>\<open>user_preferences\<close>, whose \<^verbatim>\<open>user_id\<close> column is unique.\<close>

definition insert_preference_row ::
  "preference_row \<Rightarrow> preference_row list \<Rightarrow> error + preference_row list" where
  "insert_preference_row r rows =
     (if pref_user_id r \<in> set (map pref_user_id rows) then Inl IntegrityError
      else Inr (rows @ [r]))"

subsection \<open>Watchlist operations\<close>

text \<open>
  Each operation is a \<^verbatim>\<open>try\<close> block and an \<^verbatim>\<open>except Exception\<close> clause. The block is the
  function named \<open>_try\<close>: it returns the value and the committed tables, or the exception.
  The clause returns the default and leaves the tables as they were, since nothing was
  committed.
\<close>

definition get_watchlist_try :: "faults \<Rightarrow> database \<Rightarrow> string \<Rightarrow> error + string list" where
  "get_watchlist_try F db user_id =
     bind (get_connection F) (\<lambda>_.
     bind (attempt F Query) (\<lambda>_.
     Inr (map w_ticker (filter (\<lambda>r. w_user_id r = user_id) (watchlists db)))))"

definition get_watchlist :: "faults \<Rightarrow> database \<Rightarrow> string \<Rightarrow> string list" where
  "get_watchlist F db user_id =
     (case get_watchlist_try F db user_id of Inr tickers \<Rightarrow> tickers | Inl e \<Rightarrow> [])"

definition add_to_watchlist_try ::
  "faults \<Rightarrow> timestamp \<Rightarrow> database \<Rightarrow> string \<Rightarrow> string \<Rightarrow> error + (bool \<times> database)" where
  "add_to_watchlist_try F now db ticker user_id =
     bind (get_connection F) (\<lambda>_.
     bind (attempt F Query) (\<lambda>_.
     let existing = find (\<lambda>r. w_user_id r = user_id \<and> w_ticker r = ticker) (watchlists db)
     in if existing = None
        then
          bind (attempt F Write) (\<lambda>_.
          bind (attempt F Commit) (\<lambda>_.
          Inr (True,
               db\<lparr>watchlists := watchlists db @
                     [\<lparr>w_id = next_rowid (map w_id (watchlists db)),
                       w_user_id = user_id, w_ticker = ticker, added_at = now\<rparr>]\<rparr>)))
        else Inr (False, db)))"

definition add_to_watchlist ::
  "faults \<Rightarrow> timestamp \<Rightarrow> database \<Rightarrow> string \<Rightarrow> string \<Rightarrow> bool \<times> database" where
  "add_to_watchlist F now db ticker user_id =
     (case add_to_watchlist_try F now db ticker user_id of
        Inr res \<Rightarrow> res | Inl e \<Rightarrow> (False, db))"

definition remove_from_watchlist_try ::
  "faults \<Rightarrow> database \<Rightarrow> string \<Rightarrow> string \<Rightarrow> error + (bool \<times> database)" where
  "remove_from_watchlist_try F db ticker user_id =
     bind (get_connection F) (\<lambda>_.
     bind (attempt F Write) (\<lambda>_.
     bind (attempt F Commit) (\<lambda>_.
     Inr (True,
          db\<lparr>watchlists :=
                filter (\<lambda>r. \<not> (w_user_id r = user_id \<and> w_ticker r = ticker))
                  (watchlists db)\<rparr>))))"

definition remove_from_watchlist ::
  "faults \<Rightarrow> database \<Rightarrow> string \<Rightarrow> string \<Rightarrow> bool \<times> database" where
  "remove_from_watchlist F db ticker user_id =
     (case remove_from_watchlist_try F db ticker user_id of
        Inr res \<Rightarrow> res | Inl e \<Rightarrow> (False, db))"

subsection \<open>Search history operations\<close>

definition add_to_search_history_try ::
  "faults \<Rightarrow> timestamp \<Rightarrow> database \<Rightarrow> string \<Rightarrow> string \<Rightarrow> error + (bool \<times> database)" where
  "add_to_search_history_try F now db ticker user_id =
     bind (get_connection F) (\<lambda>_.
     bind (attempt F Write) (\<lambda>_.
     bind (attempt F Commit) (\<lambda>_.
     Inr (True,
          db\<lparr>search_history := search_history db @
                [\<lparr>s_id = next_rowid (map s_id (search_history db)),
                  s_user_id = user_id, s_ticker = ticker, searched_at = now\<rparr>]\<rparr>))))"

definition add_to_search_history ::
  "faults \<Rightarrow> timestamp \<Rightarrow> database \<Rightarrow> string \<Rightarrow> string \<Rightarrow> bool \<times> database" where
  "add_to_search_history F now db ticker user_id =
     (case add_to_search_history_try F now db ticker user_id of
        Inr res \<Rightarrow> res | Inl e \<Rightarrow> (False, db))"

text \<open>
  The query orders by \<^verbatim>\<open>searched_at\<close>, latest first, and keeps \<^verbatim>\<open>limit\<close> rows. Among
  rows of equal time the later insertion comes first here; SQL leaves that order open.
\<close>

definition get_recent_searches_try ::
  "faults \<Rightarrow> database \<Rightarrow> string \<Rightarrow> nat \<Rightarrow> error + (string \<times> timestamp) list" where
  "get_recent_searches_try F db user_id limit =
     bind (get_connection F) (\<lambda>_.
     bind (attempt F Query) (\<lambda>_.
     Inr (map (\<lambda>r. (s_ticker r, searched_at r))
            (take limit (rev (sort_key searched_at
               (filter (\<lambda>r. s_user_id r = user_id) (search_history db))))))))"

definition get_recent_searches ::
  "faults \<Rightarrow> database \<Rightarrow> string \<Rightarrow> nat \<Rightarrow> (string \<times> timestamp) list" where
  "get_recent_searches F db user_id limit =
     (case get_recent_searches_try F db user_id limit of Inr res \<Rightarrow> res | Inl e \<Rightarrow> [])"

subsection \<open>User preferences operations\<close>

definition default_prefs :: preferences where
  "default_prefs =
     \<lparr>default_ticker = ''AAPL'', default_period = ''1 Year'', theme = ''light'',
      show_ma50 = 1, show_ma200 = 1\<rparr>"

definition with_keys ::
  "preferences \<Rightarrow> int option \<Rightarrow> string option \<Rightarrow> timestamp option \<Rightarrow> preferences_dict" where
  "with_keys p i u t =
     \<lparr>default_ticker = default_ticker p, default_period = default_period p,
      theme = theme p, show_ma50 = show_ma50 p, show_ma200 = show_ma200 p,
      key_id = i, key_user_id = u, key_updated_at = t\<rparr>"

definition new_row :: "preferences \<Rightarrow> int \<Rightarrow> string \<Rightarrow> timestamp \<Rightarrow> preference_row" where
  "new_row p i u t =
     \<lparr>default_ticker = default_ticker p, default_period = default_period p,
      theme = theme p, show_ma50 = show_ma50 p, show_ma200 = show_ma200 p,
      pref_id = i, pref_user_id = u, updated_at = t\<rparr>"

text \<open>The dictionary made from a row: one key for each column.\<close>

definition row_dict :: "preference_row \<Rightarrow> preferences_dict" where
  "row_dict r =
     \<lparr>default_ticker = default_ticker r, default_period = default_period r,
      theme = theme r, show_ma50 = show_ma50 r, show_ma200 = show_ma200 r,
      key_id = Some (pref_id r), key_user_id = Some (pref_user_id r),
      key_updated_at = Some (updated_at r)\<rparr>"

definition get_user_preferences_try ::
  "faults \<Rightarrow> timestamp \<Rightarrow> database \<Rightarrow> string \<Rightarrow> error + (preferences_dict \<times> database)" where
  "get_user_preferences_try F now db user_id =
     bind (get_connection F) (\<lambda>_.
     bind (attempt F Query) (\<lambda>_.
     case find (\<lambda>r. pref_user_id r = user_id) (user_preferences db) of
       Some result \<Rightarrow> Inr (row_dict result, db)
     | None \<Rightarrow>
         bind (attempt F Write) (\<lambda>_.
         bind (insert_preference_row
                 (new_row default_prefs (next_rowid (map pref_id (user_preferences db)))
                    user_id now)
                 (user_preferences db)) (\<lambda>rows.
         bind (attempt F Commit) (\<lambda>_.
         Inr (with_keys default_prefs None (Some user_id) (Some now),
              db\<lparr>user_preferences := rows\<rparr>))))))"

definition get_user_preferences ::
  "faults \<Rightarrow> timestamp \<Rightarrow> database \<Rightarrow> string \<Rightarrow> preferences_dict \<times> database" where
  "get_user_preferences F now db user_id =
     (case get_user_preferences_try F now db user_id of
        Inr res \<Rightarrow> res
      | Inl e \<Rightarrow> (with_keys default_prefs None None None, db))"

text \<open>The update statement sets the five preference columns of a row.\<close>

definition set_preferences :: "preferences \<Rightarrow> preference_row \<Rightarrow> preference_row" where
  "set_preferences p r =
     r\<lparr>default_ticker := default_ticker p, default_period := default_period p,
       theme := theme p, show_ma50 := show_ma50 p, show_ma200 := show_ma200 p\<rparr>"

definition update_user_preferences_try ::
  "faults \<Rightarrow> timestamp \<Rightarrow> database \<Rightarrow> preferences \<Rightarrow> string \<Rightarrow> error + (bool \<times> database)" where
  "update_user_preferences_try F now db prefs user_id =
     bind (get_connection F) (\<lambda>_.
     bind (attempt F Query) (\<lambda>_.
     let existing_id =
           map_option pref_id (find (\<lambda>r. pref_user_id r = user_id) (user_preferences db))
     in
     bind (attempt F Write) (\<lambda>_.
     bind (if truthy existing_id
           then Inr (map (\<lambda>r. if pref_user_id r = user_id then set_preferences prefs r else r)
                       (user_preferences db))
           else insert_preference_row
                  (new_row prefs (next_rowid (map pref_id (user_preferences db))) user_id now)
                  (user_preferences db)) (\<lambda>rows.
     bind (attempt F Commit) (\<lambda>_.
     Inr (True, db\<lparr>user_preferences := rows\<rparr>))))))"

definition update_user_preferences ::
  "faults \<Rightarrow> timestamp \<Rightarrow> database \<Rightarrow> preferences \<Rightarrow> string \<Rightarrow> bool \<times> database" where
  "update_user_preferences F now db prefs user_id =
     (case update_user_preferences_try F now db prefs user_id of
        Inr res \<Rightarrow> res | Inl e \<Rightarrow> (False, db))"

text \<open>A storage on which no call fails, and one that is out of reach.\<close>

definition no_failure :: "faults \<Rightarrow> bool" where
  "no_failure F \<longleftrightarrow>
     get_connection F = Inr () \<and> F Query = None \<and> F Write = None \<and> F Commit = None"

definition healthy :: faults where
  "healthy = (\<lambda>s. None)"

definition unavailable :: faults where
  "unavailable = (\<lambda>s. Some OperationalError)"

section \<open>Properties of the metrics engine\<close>

subsection \<open>Series access and the daily returns\<close>

lemma bind_Inr [simp]: "bind (Inr x) f = f x"
  by (simp add: bind_def)

lemma bind_Inl [simp]: "bind (Inl e) f = Inl e"
  by (simp add: bind_def)

lemma iloc_last: "s \<noteq> [] \<Longrightarrow> iloc s (- 1) = Inr (last s)"
  by (cases s rule: rev_cases) (simp_all add: iloc_def nat_add_distrib)

lemma iloc_first: "s \<noteq> [] \<Longrightarrow> iloc s 0 = Inr (hd s)"
  by (cases s) (simp_all add: iloc_def)

lemma iloc_from_end:
  assumes "0 < k" and "k \<le> length s"
  shows "iloc s (- int k) = Inr (s ! (length s - k))"
proof -
  have "nat (int (length s) - int k) = length s - k"
    using assms by simp
  then show ?thesis
    using assms by (simp add: iloc_def)
qed

lemma iloc_empty: "iloc [] i = Inl IndexError"
  by (simp add: iloc_def)

lemma length_pct_change [simp]: "length (pct_change cl) = length cl"
  by (simp add: pct_change_def shift1_def)

lemma length_daily_return [simp]: "length (daily_return cl) = length cl"
  by (simp add: daily_return_def)

lemma pct_change_nth:
  assumes "i < length cl"
  shows "pct_change cl ! i =
    (if i = 0 then NaN else np_sub (np_div (Fin (cl ! i)) (Fin (cl ! (i - 1)))) (Fin 1))"
proof (cases i)
  case 0
  with assms show ?thesis
    by (simp add: pct_change_def shift1_def np_sub_def)
next
  case (Suc j)
  with assms show ?thesis
    by (simp add: pct_change_def shift1_def)
qed

lemma last_daily_return:
  assumes "1 < length cl"
  shows "last (daily_return cl) = pct_return (last cl) (cl ! (length cl - 2))"
proof -
  have ne: "pct_change cl \<noteq> []" "cl \<noteq> []"
    using assms by (auto simp flip: length_0_conv)
  have "last (pct_change cl) = pct_change cl ! (length cl - 1)"
    using ne by (simp add: last_conv_nth)
  also have "\<dots> = np_sub (np_div (Fin (cl ! (length cl - 1))) (Fin (cl ! (length cl - 1 - 1)))) (Fin 1)"
    using assms by (simp add: pct_change_nth)
  finally show ?thesis
    using ne assms
    by (simp add: daily_return_def last_map pct_return_def last_conv_nth numeral_2_eq_2)
qed

lemma growth_first:
  "cl \<noteq> [] \<Longrightarrow> growth cl (- 1) 0 = Inr (pct_return (last cl) (hd cl))"
  by (simp add: growth_def iloc_last iloc_first)

lemma growth_from_end:
  assumes "0 < k" and "k \<le> length cl"
  shows "growth cl (- 1) (- int k) = Inr (pct_return (last cl) (cl ! (length cl - k)))"
proof -
  have "cl \<noteq> []" using assms by auto
  then show ?thesis
    using assms by (simp add: growth_def iloc_last iloc_from_end)
qed

text \<open>What the function returns on every frame with at least one row.\<close>

lemma calculate_performance_metrics_nonempty:
  assumes "df \<noteq> []"
  shows "calculate_performance_metrics y df =
    Inr \<lparr>daily_returns =
           (if 1 < length df
            then pct_return (last (map bar_close df))
                   (map bar_close df ! (length df - 2))
            else Fin 0),
         monthly_returns =
           (if 30 \<le> length df
            then pct_return (last (map bar_close df))
                   (map bar_close df ! (length df - 30))
            else pct_return (last (map bar_close df)) (hd (map bar_close df))),
         ytd_returns =
           (if ytd_data y df \<noteq> []
            then pct_return (last (map bar_close (ytd_data y df)))
                   (hd (map bar_close (ytd_data y df)))
            else Fin 0),
         annual_returns =
           (if 252 < length df
            then pct_return (last (map bar_close df))
                   (map bar_close df ! (length df - 252))
            else pct_return (last (map bar_close df)) (hd (map bar_close df))),
         volatility = np_mul (std (daily_return (map bar_close df))) (Fin (sqrt 252)),
         returns = dropna (daily_return (map bar_close df)),
         sharpe_ratio =
           (if np_gt (std (daily_return (map bar_close df))) (Fin 0)
            then np_mul (np_div (mean (daily_return (map bar_close df)))
                           (std (daily_return (map bar_close df))))
                   (Fin (sqrt 252))
            else Fin 0)\<rparr>"
proof -
  let ?cl = "map bar_close df"
  have ne: "?cl \<noteq> []" using assms by simp
  have d: "1 < length df \<Longrightarrow> iloc (daily_return ?cl) (- 1) =
      Inr (pct_return (last ?cl) (?cl ! (length df - 2)))"
  proof -
    assume l: "1 < length df"
    then have "daily_return ?cl \<noteq> []"
      by (auto simp flip: length_0_conv)
    then show ?thesis
      using l last_daily_return [of ?cl] by (simp add: iloc_last)
  qed
  have m: "30 \<le> length df \<Longrightarrow> growth ?cl (- 1) (- 30) =
      Inr (pct_return (last ?cl) (?cl ! (length df - 30)))"
    using growth_from_end [of 30 ?cl] by simp
  have a: "252 < length df \<Longrightarrow> growth ?cl (- 1) (- 252) =
      Inr (pct_return (last ?cl) (?cl ! (length df - 252)))"
    using growth_from_end [of 252 ?cl] by simp
  have f: "growth ?cl (- 1) 0 = Inr (pct_return (last ?cl) (hd ?cl))"
    using ne by (rule growth_first)
  have yt: "ytd_data y df \<noteq> [] \<Longrightarrow> growth (map bar_close (ytd_data y df)) (- 1) 0 =
      Inr (pct_return (last (map bar_close (ytd_data y df))) (hd (map bar_close (ytd_data y df))))"
    by (rule growth_first) simp
  show ?thesis
    unfolding calculate_performance_metrics_def daily_returns_of_def monthly_returns_of_def
      ytd_returns_of_def annual_returns_of_def volatility_of_def sharpe_ratio_of_def Let_def
    using d m a f yt by simp
qed

text \<open>
  On a frame without rows the daily-return block gives 0 and the monthly block then
  raises IndexError (\<^verbatim>\<open>iloc[-1]\<close> of an empty column), so the function returns no
  dictionary. The dashboard calls it only when \<^verbatim>\<open>df.empty\<close> is false.
\<close>

lemma calculate_performance_metrics_empty:
  "calculate_performance_metrics y [] = Inl IndexError"
  by (simp add: calculate_performance_metrics_def daily_returns_of_def
      monthly_returns_of_def growth_def iloc_empty)

lemma pct_return_finite: "b \<noteq> 0 \<Longrightarrow> pct_return a b = Fin ((a / b - 1) * 100)"
  by (simp add: pct_return_def np_sub_def)

lemma pct_return_zero_zero: "pct_return 0 0 = NaN"
  by (simp add: pct_return_def np_sub_def)

lemma pct_return_zero_infinite: "a \<noteq> 0 \<Longrightarrow> np_isinf (pct_return a 0)"
  by (simp add: pct_return_def np_sub_def np_isinf_def)

lemma pct_return_zero_cases:
  "pct_return a 0 = NaN \<and> a = 0 \<or> np_isinf (pct_return a 0) \<and> a \<noteq> 0"
  using pct_return_zero_zero pct_return_zero_infinite by (cases "a = 0") auto

lemma np_sqrt_range: "np_sqrt x = NaN \<or> np_sqrt x = PosInf \<or> (\<exists>v. 0 \<le> v \<and> np_sqrt x = Fin v)"
  by (cases x) auto

lemma std_range: "std s = NaN \<or> std s = PosInf \<or> (\<exists>v. 0 \<le> v \<and> std s = Fin v)"
  unfolding std_def Let_def using np_sqrt_range by auto

lemma std_positive: "np_gt (std s) (Fin 0) \<longleftrightarrow> std s \<noteq> NaN \<and> std s \<noteq> Fin 0"
  using std_range [of s] by auto

lemma daily_return_single: "daily_return [c] = [NaN]"
  by (simp add: daily_return_def pct_change_def shift1_def np_sub_def)

lemma std_single: "std [x] = NaN"
  by (simp add: std_def dropna_def)

lemma two_bar_daily_return: "daily_return [a, b] = [NaN, pct_return b a]"
  by (simp add: daily_return_def pct_change_def shift1_def np_sub_def pct_return_def)

lemma std_two_bars: "std [NaN, x] = NaN"
  by (simp add: std_def dropna_def)

lemma mean_two_bars: "x \<noteq> NaN \<Longrightarrow> mean [NaN, x] = np_div (np_add (Fin 0) x) (Fin 1)"
  by (simp add: mean_def dropna_def np_sum_def)

lemma datetime_ge_start_of_year:
  "1 \<le> mo \<Longrightarrow> 1 \<le> d \<Longrightarrow> datetime_ge (yr, mo, d) (y, 1, 1) \<longleftrightarrow> y \<le> yr"
  by (auto simp add: datetime_ge_def)

lemma daily_return_100_102_102: "daily_return [100, 102, 102] = [NaN, Fin 2, Fin 0]"
  by (simp add: daily_return_def pct_change_def shift1_def np_sub_def)

lemma std_100_102_102: "std [NaN, Fin 2, Fin 0] = Fin (sqrt 2)"
  by (simp add: std_def dropna_def np_sum_def np_sub_def Let_def)

lemma mean_100_102_102: "mean [NaN, Fin 2, Fin 0] = Fin 1"
  by (simp add: mean_def dropna_def np_sum_def Let_def)

lemma daily_returns_of_eq:
  "daily_returns_of cl =
     Inr (if 2 \<le> length cl then pct_return (last cl) (cl ! (length cl - 2)) else Fin 0)"
proof (cases "1 < length cl")
  case True
  then have "daily_return cl \<noteq> []"
    by (auto simp flip: length_0_conv)
  with True show ?thesis
    using last_daily_return [of cl] by (simp add: daily_returns_of_def iloc_last)
next
  case False
  then show ?thesis
    by (simp add: daily_returns_of_def)
qed


lemma sharpe_ratio_of_eq:
  "sharpe_ratio_of dr =
     (if std dr = Fin 0 \<or> std dr = NaN then Fin 0
      else np_mul (np_div (mean dr) (std dr)) (Fin (sqrt 252)))"
  by (auto simp add: sharpe_ratio_of_def std_positive)

lemma sharpe_ratio_metric:
  "df \<noteq> [] \<Longrightarrow> \<exists>m. calculate_performance_metrics y df = Inr m
     \<and> sharpe_ratio m = sharpe_ratio_of (daily_return (map bar_close df))"
  unfolding calculate_performance_metrics_nonempty
  by (simp add: sharpe_ratio_of_def)


lemma datetime_ge_january_first:
  "datetime_ge (yr, mo, d) (y, 1, 1) \<longleftrightarrow> y < yr \<or> (yr = y \<and> (1 < mo \<or> (mo = 1 \<and> 1 \<le> d)))"
  by (auto simp add: datetime_ge_def)

subsection \<open>Single-bar series\<close>

text \<open>
  C1 says that a series of one bar gives 0 for every metric and an empty vector of
  returns. The frame of one bar closing at 100 shows that the volatility is not 0: the
  daily-return column holds only NaN, its standard deviation is NaN, and so is the
  volatility.
\<close>

theorem single_bar_volatility_counterexample:
  "calculate_performance_metrics 2024 [\<lparr>bar_date = (2024, 1, 2), bar_close = 100\<rparr>] =
     Inr \<lparr>daily_returns = Fin 0, monthly_returns = Fin 0, ytd_returns = Fin 0,
          annual_returns = Fin 0, volatility = NaN, returns = [], sharpe_ratio = Fin 0\<rparr>
   \<and> calculate_performance_metrics 2024 [\<lparr>bar_date = (2024, 1, 2), bar_close = 100\<rparr>] \<noteq>
     Inr \<lparr>daily_returns = Fin 0, monthly_returns = Fin 0, ytd_returns = Fin 0,
          annual_returns = Fin 0, volatility = Fin 0, returns = [], sharpe_ratio = Fin 0\<rparr>"
  by (simp add: calculate_performance_metrics_nonempty daily_return_single std_single
      pct_return_finite ytd_data_def datetime_ge_def dropna_def)

text \<open>
  C1, as the code has it: for a series of one bar the daily return and the Sharpe ratio
  are 0, the vector of returns is empty and the volatility is NaN. The monthly and the
  annual return are 0 when the close is not 0 and NaN (0/0) when it is; the YTD return
  is 0 as well, except that a bar of the current year closing at 0 gives NaN.
\<close>

theorem single_bar_metrics:
  "calculate_performance_metrics y [b] =
     Inr \<lparr>daily_returns = Fin 0,
          monthly_returns = (if bar_close b = 0 then NaN else Fin 0),
          ytd_returns =
            (if datetime_ge (bar_date b) (y, 1, 1) \<and> bar_close b = 0 then NaN else Fin 0),
          annual_returns = (if bar_close b = 0 then NaN else Fin 0),
          volatility = NaN,
          returns = [],
          sharpe_ratio = Fin 0\<rparr>"
  by (simp add: calculate_performance_metrics_nonempty daily_return_single std_single
      pct_return_finite pct_return_zero_zero ytd_data_def dropna_def)

theorem single_bar_metrics_witness:
  "calculate_performance_metrics 2024 [\<lparr>bar_date = (2023, 6, 1), bar_close = 50\<rparr>] =
     Inr \<lparr>daily_returns = Fin 0, monthly_returns = Fin 0, ytd_returns = Fin 0,
          annual_returns = Fin 0, volatility = NaN, returns = [], sharpe_ratio = Fin 0\<rparr>"
  using single_bar_metrics [of 2024 "\<lparr>bar_date = (2023, 6, 1), bar_close = 50\<rparr>"]
  by (simp add: datetime_ge_def)

subsection \<open>Division by zero\<close>

text \<open>
  C2 says that a division by a zero denominator yields the metric 0. On the two bars
  closing at 0 and 100 every return divides by the first close and is infinite.
\<close>

theorem zero_close_counterexample:
  "calculate_performance_metrics 2024
     [\<lparr>bar_date = (2024, 1, 2), bar_close = 0\<rparr>, \<lparr>bar_date = (2024, 1, 3), bar_close = 100\<rparr>] =
     Inr \<lparr>daily_returns = PosInf, monthly_returns = PosInf, ytd_returns = PosInf,
          annual_returns = PosInf, volatility = NaN, returns = [PosInf], sharpe_ratio = Fin 0\<rparr>
   \<and> map_sum id monthly_returns (calculate_performance_metrics 2024
     [\<lparr>bar_date = (2024, 1, 2), bar_close = 0\<rparr>, \<lparr>bar_date = (2024, 1, 3), bar_close = 100\<rparr>]) \<noteq>
     Inr (Fin 0)"
  by (simp add: calculate_performance_metrics_nonempty two_bar_daily_return std_two_bars
      pct_return_def np_sub_def ytd_data_def datetime_ge_def dropna_def)

text \<open>
  C2, as the code has it: on a series with at least one bar the function returns, so no
  division fails. The Sharpe ratio is guarded and is 0 when the standard deviation is 0.
  The returns are not guarded: a return whose denominator close is 0 is not 0; it is NaN
  when the latest close is 0 too, and an infinity otherwise.
\<close>

theorem zero_denominator_behaviour:
  assumes "df \<noteq> []"
  shows "\<exists>m. calculate_performance_metrics y df = Inr m
    \<and> (std (daily_return (map bar_close df)) = Fin 0 \<longrightarrow> sharpe_ratio m = Fin 0)
    \<and> (length df < 30 \<and> bar_close (hd df) = 0 \<longrightarrow>
         monthly_returns m \<noteq> Fin 0
         \<and> (if bar_close (last df) = 0 then monthly_returns m = NaN
             else np_isinf (monthly_returns m)))
    \<and> (30 \<le> length df \<and> bar_close (df ! (length df - 30)) = 0 \<longrightarrow>
         monthly_returns m \<noteq> Fin 0
         \<and> (if bar_close (last df) = 0 then monthly_returns m = NaN
             else np_isinf (monthly_returns m)))
    \<and> (length df \<le> 252 \<and> bar_close (hd df) = 0 \<longrightarrow>
         annual_returns m \<noteq> Fin 0
         \<and> (if bar_close (last df) = 0 then annual_returns m = NaN
             else np_isinf (annual_returns m)))
    \<and> (252 < length df \<and> bar_close (df ! (length df - 252)) = 0 \<longrightarrow>
         annual_returns m \<noteq> Fin 0
         \<and> (if bar_close (last df) = 0 then annual_returns m = NaN
             else np_isinf (annual_returns m)))
    \<and> (2 \<le> length df \<and> bar_close (df ! (length df - 2)) = 0 \<longrightarrow>
         daily_returns m \<noteq> Fin 0
         \<and> (if bar_close (last df) = 0 then daily_returns m = NaN
             else np_isinf (daily_returns m)))
    \<and> (ytd_data y df \<noteq> [] \<and> bar_close (hd (ytd_data y df)) = 0 \<longrightarrow>
         ytd_returns m \<noteq> Fin 0
         \<and> (if bar_close (last (ytd_data y df)) = 0 then ytd_returns m = NaN
             else np_isinf (ytd_returns m)))"
proof -
  have l: "last (map bar_close df) = bar_close (last df)"
    using assms by (simp add: last_map)
  have h: "hd (map bar_close df) = bar_close (hd df)"
    using assms by (simp add: hd_map)
  have yl: "ytd_data y df \<noteq> [] \<Longrightarrow>
      last (map bar_close (ytd_data y df)) = bar_close (last (ytd_data y df))"
    by (simp add: last_map)
  have yh: "ytd_data y df \<noteq> [] \<Longrightarrow>
      hd (map bar_close (ytd_data y df)) = bar_close (hd (ytd_data y df))"
    by (simp add: hd_map)
  have n: "\<And>k. 0 < k \<Longrightarrow> map bar_close df ! (length df - k) = bar_close (df ! (length df - k))"
    using assms by (simp add: nth_map)
  have z: "pct_return a 0 \<noteq> Fin 0
      \<and> (if a = 0 then pct_return a 0 = NaN else np_isinf (pct_return a 0))" for a
    using pct_return_zero_cases [of a] by (auto simp add: np_isinf_def)
  show ?thesis
    unfolding calculate_performance_metrics_nonempty [OF assms]
    using z by (simp add: l h n yl yh)
qed

theorem zero_denominator_behaviour_witness:
  "\<exists>m. calculate_performance_metrics 2024
     [\<lparr>bar_date = (2024, 3, 1), bar_close = 0\<rparr>,
      \<lparr>bar_date = (2024, 3, 4), bar_close = 0\<rparr>,
      \<lparr>bar_date = (2024, 3, 5), bar_close = - 5\<rparr>] = Inr m
    \<and> np_isinf (monthly_returns m) \<and> np_isinf (annual_returns m)
    \<and> np_isinf (daily_returns m) \<and> np_isinf (ytd_returns m)
    \<and> monthly_returns m \<noteq> Fin 0"
  using zero_denominator_behaviour [of
     "[\<lparr>bar_date = (2024, 3, 1), bar_close = 0\<rparr>,
       \<lparr>bar_date = (2024, 3, 4), bar_close = 0\<rparr>,
       \<lparr>bar_date = (2024, 3, 5), bar_close = - 5\<rparr>]" 2024]
  by (auto simp add: ytd_data_def datetime_ge_def)

subsection \<open>Sharpe ratio\<close>

text \<open>
  C3 says that the Sharpe ratio is mean / std * sqrt 252 on every series and 0 when the
  standard deviation is 0. On two bars the column has one return, its standard deviation
  is NaN and not 0, the quotient is NaN, and the function returns 0.
\<close>

theorem two_bar_sharpe_counterexample:
  "map_sum id sharpe_ratio (calculate_performance_metrics 2024
     [\<lparr>bar_date = (2024, 1, 2), bar_close = 100\<rparr>, \<lparr>bar_date = (2024, 1, 3), bar_close = 102\<rparr>]) =
     Inr (Fin 0)
   \<and> std (daily_return [100, 102]) = NaN
   \<and> std (daily_return [100, 102]) \<noteq> Fin 0
   \<and> mean (daily_return [100, 102]) = Fin 2
   \<and> np_mul (np_div (mean (daily_return [100, 102])) (std (daily_return [100, 102])))
        (Fin (sqrt 252)) = NaN
   \<and> map_sum id sharpe_ratio (calculate_performance_metrics 2024
     [\<lparr>bar_date = (2024, 1, 2), bar_close = 100\<rparr>, \<lparr>bar_date = (2024, 1, 3), bar_close = 102\<rparr>]) \<noteq>
     Inr (np_mul (np_div (mean (daily_return [100, 102])) (std (daily_return [100, 102])))
        (Fin (sqrt 252)))"
  by (simp add: calculate_performance_metrics_nonempty two_bar_daily_return std_two_bars
      mean_two_bars pct_return_finite)

text \<open>
  C3, as the code has it: the Sharpe ratio is mean / std * sqrt 252 of the daily
  percentage returns when their standard deviation is greater than 0, and 0 when it is 0
  or NaN (fewer than two returns, or a return that is not finite). This holds of the
  Sharpe block on every series, and the function returns that value on every series
  with at least one bar.
\<close>

theorem sharpe_ratio_guarded:
  "sharpe_ratio_of (daily_return (map bar_close df)) =
     (if std (daily_return (map bar_close df)) = Fin 0
         \<or> std (daily_return (map bar_close df)) = NaN
      then Fin 0
      else np_mul (np_div (mean (daily_return (map bar_close df)))
                     (std (daily_return (map bar_close df))))
             (Fin (sqrt 252)))
   \<and> (df \<noteq> [] \<longrightarrow>
        (\<exists>m. calculate_performance_metrics y df = Inr m
           \<and> sharpe_ratio m = sharpe_ratio_of (daily_return (map bar_close df))))"
  using sharpe_ratio_metric [of df y] by (simp add: sharpe_ratio_of_eq)

theorem sharpe_ratio_guarded_witness:
  "\<exists>m. calculate_performance_metrics 2024
     [\<lparr>bar_date = (2024, 3, 1), bar_close = 100\<rparr>,
      \<lparr>bar_date = (2024, 3, 4), bar_close = 102\<rparr>,
      \<lparr>bar_date = (2024, 3, 5), bar_close = 102\<rparr>] = Inr m
    \<and> sharpe_ratio m = Fin (1 / sqrt 2 * sqrt 252)"
  using sharpe_ratio_guarded [of
     "[\<lparr>bar_date = (2024, 3, 1), bar_close = 100\<rparr>,
       \<lparr>bar_date = (2024, 3, 4), bar_close = 102\<rparr>,
       \<lparr>bar_date = (2024, 3, 5), bar_close = 102\<rparr>]" 2024]
  by (auto simp add: daily_return_100_102_102 std_100_102_102 mean_100_102_102)

subsection \<open>Monthly, YTD and daily return\<close>





text \<open>
  C6: with at least 2 bars the daily return is (close[-1] / close[-2] - 1) * 100, with
  fewer it is 0; the closes 100, 102, 101, 105, 103 give (103 / 105 - 1) * 100. This
  holds of the daily-return block on every series, and the function returns that value on
  every series with at least one bar.
\<close>

theorem daily_return_formula:
  "daily_returns_of (map bar_close df) =
     Inr (if 2 \<le> length df
          then pct_return (bar_close (last df)) (bar_close (df ! (length df - 2)))
          else Fin 0)
   \<and> (df \<noteq> [] \<longrightarrow>
        (\<exists>m. calculate_performance_metrics y df = Inr m
           \<and> Inr (daily_returns m) = daily_returns_of (map bar_close df)))
   \<and> (map bar_close df = [100, 102, 101, 105, 103] \<longrightarrow>
        daily_returns_of (map bar_close df) = Inr (Fin ((103 / 105 - 1) * 100)))"
proof -
  have l: "2 \<le> length df \<Longrightarrow> last (map bar_close df) = bar_close (last df)"
    by (cases df) (simp_all add: last_map)
  have n: "2 \<le> length df \<Longrightarrow>
      map bar_close df ! (length df - 2) = bar_close (df ! (length df - 2))"
    by (simp add: nth_map)
  have b: "daily_returns_of (map bar_close df) =
     Inr (if 2 \<le> length df
          then pct_return (bar_close (last df)) (bar_close (df ! (length df - 2)))
          else Fin 0)"
    unfolding daily_returns_of_eq by (simp add: l n)
  have m: "\<exists>m. calculate_performance_metrics y df = Inr m
           \<and> Inr (daily_returns m) = daily_returns_of (map bar_close df)"
    if "df \<noteq> []"
    unfolding calculate_performance_metrics_nonempty [OF that] daily_returns_of_eq
    by auto
  have ex: "daily_returns_of (map bar_close df) = Inr (Fin ((103 / 105 - 1) * 100))"
    if a: "map bar_close df = [100, 102, 101, 105, 103]"
    unfolding daily_returns_of_eq a by (simp add: pct_return_finite)
  from b m ex show ?thesis by blast
qed

theorem daily_return_formula_witness:
  "\<exists>m. calculate_performance_metrics 2024
      [\<lparr>bar_date = (2024, 5, 6), bar_close = 100\<rparr>,
       \<lparr>bar_date = (2024, 5, 7), bar_close = 102\<rparr>,
       \<lparr>bar_date = (2024, 5, 8), bar_close = 101\<rparr>,
       \<lparr>bar_date = (2024, 5, 9), bar_close = 105\<rparr>,
       \<lparr>bar_date = (2024, 5, 10), bar_close = 103\<rparr>] = Inr m
    \<and> daily_returns m = Fin (- (40 / 21))
    \<and> - 1.905 < (- (40 / 21) :: real) \<and> (- (40 / 21) :: real) < - 1.904"
  using daily_return_formula [of
      "[\<lparr>bar_date = (2024, 5, 6), bar_close = 100\<rparr>,
        \<lparr>bar_date = (2024, 5, 7), bar_close = 102\<rparr>,
        \<lparr>bar_date = (2024, 5, 8), bar_close = 101\<rparr>,
        \<lparr>bar_date = (2024, 5, 9), bar_close = 105\<rparr>,
        \<lparr>bar_date = (2024, 5, 10), bar_close = 103\<rparr>]" 2024]
  by auto

section \<open>Properties of the persistence layer\<close>

subsection \<open>Storage calls\<close>

lemma attempt_None [simp]: "F s = None \<Longrightarrow> attempt F s = Inr ()"
  by (simp add: attempt_def)

lemma attempt_Some [simp]: "F s = Some e \<Longrightarrow> attempt F s = Inl e"
  by (simp add: attempt_def)

lemma no_failure_steps:
  "no_failure F \<Longrightarrow> get_connection F = Inr () \<and> attempt F Query = Inr ()
     \<and> attempt F Write = Inr () \<and> attempt F Commit = Inr ()"
  by (simp add: no_failure_def)

lemma no_failure_healthy: "no_failure healthy"
  by (simp add: no_failure_def healthy_def get_connection_def)

lemma get_connection_unavailable: "get_connection unavailable = Inl OperationalError"
  by (simp add: unavailable_def get_connection_def)

lemma find_filter_empty: "find P xs = None \<longleftrightarrow> filter P xs = []"
  by (induction xs) auto

text \<open>What one call does on a storage without failure.\<close>

lemma add_to_watchlist_ok:
  assumes "no_failure F"
  shows "add_to_watchlist F now db ticker user_id =
    (if filter (\<lambda>r. w_user_id r = user_id \<and> w_ticker r = ticker) (watchlists db) = []
     then (True,
           db\<lparr>watchlists := watchlists db @
                 [\<lparr>w_id = next_rowid (map w_id (watchlists db)),
                   w_user_id = user_id, w_ticker = ticker, added_at = now\<rparr>]\<rparr>)
     else (False, db))"
  using no_failure_steps [OF assms]
  by (simp add: add_to_watchlist_def add_to_watchlist_try_def find_filter_empty)

text \<open>Whatever fails, a call adds at most the one row, and only when the pair is absent.\<close>

lemma add_to_watchlist_cases:
  "add_to_watchlist F now db ticker user_id = (False, db)
   \<or> (filter (\<lambda>r. w_user_id r = user_id \<and> w_ticker r = ticker) (watchlists db) = []
      \<and> add_to_watchlist F now db ticker user_id =
          (True,
           db\<lparr>watchlists := watchlists db @
                 [\<lparr>w_id = next_rowid (map w_id (watchlists db)),
                   w_user_id = user_id, w_ticker = ticker, added_at = now\<rparr>]\<rparr>))"
  by (auto simp add: add_to_watchlist_def add_to_watchlist_try_def find_filter_empty bind_def
      Let_def split: sum.splits)

lemma add_to_watchlist_present:
  assumes "filter (\<lambda>r. w_user_id r = user_id \<and> w_ticker r = ticker) (watchlists db) \<noteq> []"
  shows "add_to_watchlist F now db ticker user_id = (False, db)"
  using add_to_watchlist_cases [of F now db ticker user_id] assms by auto

lemma isl_bind: "isl (bind m f) = (case m of Inl e \<Rightarrow> True | Inr x \<Rightarrow> isl (f x))"
  by (cases m) simp_all

lemma isl_attempt: "isl (attempt F s) \<longleftrightarrow> F s \<noteq> None"
  by (simp add: attempt_def split: option.splits)

lemma not_Inr_unit: "m \<noteq> Inr () \<longleftrightarrow> isl m" for m :: "error + unit"
  by (cases m) simp_all

lemma distinct_filter_key:
  "distinct (map f xs) \<Longrightarrow> length (filter (\<lambda>r. f r = k) xs) \<le> 1"
proof (induction xs)
  case Nil
  then show ?case by simp
next
  case (Cons x xs)
  show ?case
  proof (cases "f x = k")
    case True
    have "f r \<noteq> k" if "r \<in> set xs" for r
      using that Cons.prems True by (metis distinct.simps(2) image_eqI list.simps(9) set_map)
    then have "filter (\<lambda>r. f r = k) xs = []"
      by (simp add: filter_empty_conv)
    with True show ?thesis by simp
  next
    case False
    with Cons show ?thesis by simp
  qed
qed

lemma find_Some_row:
  "find P xs = Some r \<Longrightarrow> r \<in> set xs \<and> P r"
  by (induction xs) (auto split: if_splits)

lemma find_None_set: "find P xs = None \<longleftrightarrow> (\<forall>x \<in> set xs. \<not> P x)"
  by (induction xs) auto

lemma user_ids_set_preferences:
  "map (pref_user_id \<circ> (\<lambda>r. if pref_user_id r = u then set_preferences p r else r)) rows =
   map pref_user_id rows"
  by (induction rows) (simp_all add: set_preferences_def)

lemma insert_preference_row_distinct:
  "distinct (map pref_user_id rows) \<Longrightarrow> insert_preference_row r rows = Inr rows' \<Longrightarrow>
   distinct (map pref_user_id rows') \<and> rows' = rows @ [r] \<and> pref_user_id r \<notin> pref_user_id ` set rows"
  by (auto simp add: insert_preference_row_def split: if_splits)

lemma update_user_preferences_try_cases:
  assumes "update_user_preferences_try F now db prefs u = Inr (ok, db')"
  shows "ok \<and>
    ((truthy (map_option pref_id (find (\<lambda>r. pref_user_id r = u) (user_preferences db)))
       \<and> db' = db\<lparr>user_preferences :=
            map (\<lambda>r. if pref_user_id r = u then set_preferences prefs r else r)
              (user_preferences db)\<rparr>)
     \<or> (find (\<lambda>r. pref_user_id r = u) (user_preferences db) = None
       \<and> db' = db\<lparr>user_preferences := user_preferences db @
            [new_row prefs (next_rowid (map pref_id (user_preferences db))) u now]\<rparr>))"
proof -
  let ?rows = "user_preferences db"
  let ?e = "map_option pref_id (find (\<lambda>r. pref_user_id r = u) ?rows)"
  show ?thesis
  proof (cases "truthy ?e")
    case True
    with assms show ?thesis
      by (auto simp add: update_user_preferences_try_def bind_def Let_def split: sum.splits)
  next
    case False
    from assms False obtain rows' where
      ins: "insert_preference_row (new_row prefs (next_rowid (map pref_id ?rows)) u now) ?rows = Inr rows'"
      and r: "ok" "db' = db\<lparr>user_preferences := rows'\<rparr>"
      by (auto simp add: update_user_preferences_try_def bind_def Let_def split: sum.splits)
    from ins have rows': "rows' = ?rows @ [new_row prefs (next_rowid (map pref_id ?rows)) u now]"
      and "u \<notin> pref_user_id ` set ?rows"
      by (auto simp add: insert_preference_row_def new_row_def split: if_splits)
    then have "find (\<lambda>r. pref_user_id r = u) ?rows = None"
      by (auto simp add: find_None_set)
    with r rows' show ?thesis by simp
  qed
qed

lemma update_user_preferences_cases:
  "update_user_preferences F now db prefs u = (False, db)
   \<or> (truthy (map_option pref_id (find (\<lambda>r. pref_user_id r = u) (user_preferences db)))
       \<and> update_user_preferences F now db prefs u =
          (True, db\<lparr>user_preferences :=
            map (\<lambda>r. if pref_user_id r = u then set_preferences prefs r else r)
              (user_preferences db)\<rparr>))
   \<or> (find (\<lambda>r. pref_user_id r = u) (user_preferences db) = None
       \<and> update_user_preferences F now db prefs u =
          (True, db\<lparr>user_preferences := user_preferences db @
            [new_row prefs (next_rowid (map pref_id (user_preferences db))) u now]\<rparr>))"
proof (cases "update_user_preferences_try F now db prefs u")
  case (Inl e)
  then show ?thesis by (simp add: update_user_preferences_def)
next
  case (Inr res)
  obtain ok db' where res: "res = (ok, db')" by (cases res)
  from update_user_preferences_try_cases [OF Inr [unfolded res]] Inr res
  show ?thesis
    by (auto simp add: update_user_preferences_def)
qed

lemma update_user_preferences_ok:
  assumes "no_failure F"
  shows "update_user_preferences F now db prefs u =
    (case find (\<lambda>r. pref_user_id r = u) (user_preferences db) of
       None \<Rightarrow> (True, db\<lparr>user_preferences := user_preferences db @
            [new_row prefs (next_rowid (map pref_id (user_preferences db))) u now]\<rparr>)
     | Some r \<Rightarrow>
         if pref_id r \<noteq> 0
         then (True, db\<lparr>user_preferences :=
            map (\<lambda>r. if pref_user_id r = u then set_preferences prefs r else r)
              (user_preferences db)\<rparr>)
         else (False, db))"
proof (cases "find (\<lambda>r. pref_user_id r = u) (user_preferences db)")
  case None
  then have "u \<notin> pref_user_id ` set (user_preferences db)"
    by (auto simp add: find_None_set)
  with None show ?thesis
    using no_failure_steps [OF assms]
    by (simp add: update_user_preferences_def update_user_preferences_try_def
        insert_preference_row_def new_row_def)
next
  case (Some r)
  then have "u \<in> pref_user_id ` set (user_preferences db)"
    using find_Some_row [OF Some] by auto
  with Some show ?thesis
    using no_failure_steps [OF assms]
    by (simp add: update_user_preferences_def update_user_preferences_try_def
        insert_preference_row_def new_row_def)
qed

lemma get_user_preferences_ok:
  assumes "no_failure F"
  shows "get_user_preferences F now db u =
    (case find (\<lambda>r. pref_user_id r = u) (user_preferences db) of
       Some r \<Rightarrow> (row_dict r, db)
     | None \<Rightarrow>
         (with_keys default_prefs None (Some u) (Some now),
          db\<lparr>user_preferences := user_preferences db @
            [new_row default_prefs (next_rowid (map pref_id (user_preferences db))) u now]\<rparr>))"
proof (cases "find (\<lambda>r. pref_user_id r = u) (user_preferences db)")
  case None
  then have "u \<notin> pref_user_id ` set (user_preferences db)"
    by (auto simp add: find_None_set)
  with None show ?thesis
    using no_failure_steps [OF assms]
    by (simp add: get_user_preferences_def get_user_preferences_try_def
        insert_preference_row_def new_row_def)
next
  case (Some r)
  then show ?thesis
    using no_failure_steps [OF assms]
    by (simp add: get_user_preferences_def get_user_preferences_try_def)
qed

lemma find_append_new:
  "find P xs = None \<Longrightarrow> P x \<Longrightarrow> find P (xs @ [x]) = Some x"
  by (induction xs) (auto split: if_splits)

lemma pair_filter_unique:
  assumes "distinct (map (\<lambda>r. (w_user_id r, w_ticker r)) rows)"
  shows "length (filter (\<lambda>r. w_user_id r = u \<and> w_ticker r = t) rows) \<le> 1"
  using distinct_filter_key [OF assms, of "(u, t)"] by simp

lemma add_to_watchlist_distinct:
  assumes "distinct (map (\<lambda>r. (w_user_id r, w_ticker r)) (watchlists db))"
  shows "distinct (map (\<lambda>r. (w_user_id r, w_ticker r))
           (watchlists (snd (add_to_watchlist F now db ticker user_id))))"
  using add_to_watchlist_cases [of F now db ticker user_id] assms
  by (auto simp add: filter_empty_conv)

lemma fold_max_ge: "(i :: int) \<le> fold max js i"
  by (induction js arbitrary: i) (auto intro: order_trans [OF max.cobounded2])

lemma next_rowid_positive: "list_all (\<lambda>i. 0 < i) ids \<Longrightarrow> 0 < next_rowid ids"
proof (cases ids)
  case Nil
  then show ?thesis by simp
next
  case (Cons i js)
  assume "list_all (\<lambda>i. 0 < i) ids"
  with Cons have "0 < i" by simp
  with fold_max_ge [of i js] Cons show ?thesis by simp
qed

subsection \<open>Watchlist\<close>

text \<open>
  C7: on a storage without failure and a table without duplicates, adding the same ticker
  for the same user twice leaves exactly one entry for the pair; the second call returns
  False and changes nothing, whether or not the storage fails then.
\<close>

theorem add_to_watchlist_idempotent:
  assumes "distinct (map (\<lambda>r. (w_user_id r, w_ticker r)) (watchlists db))"
    and "no_failure F"
  shows "case add_to_watchlist F now db ticker user_id of (r, db') \<Rightarrow>
         case add_to_watchlist G later db' ticker user_id of (r', db'') \<Rightarrow>
           length (filter (\<lambda>r. w_user_id r = user_id \<and> w_ticker r = ticker)
             (watchlists db'')) = 1
           \<and> r' = False \<and> db'' = db'
           \<and> distinct (map (\<lambda>r. (w_user_id r, w_ticker r)) (watchlists db''))"
proof -
  let ?P = "\<lambda>r. w_user_id r = user_id \<and> w_ticker r = ticker"
  obtain r1 db1 where c1: "add_to_watchlist F now db ticker user_id = (r1, db1)"
    by (cases "add_to_watchlist F now db ticker user_id")
  have d1: "distinct (map (\<lambda>r. (w_user_id r, w_ticker r)) (watchlists db1))"
    using add_to_watchlist_distinct [OF assms(1), of F now ticker user_id] c1 by simp
  have one: "length (filter ?P (watchlists db1)) = 1"
  proof (cases "filter ?P (watchlists db) = []")
    case True
    with c1 show ?thesis
      by (auto simp add: add_to_watchlist_ok [OF assms(2)])
  next
    case False
    then have "length (filter ?P (watchlists db)) = 1"
      using pair_filter_unique [OF assms(1), of user_id ticker]
      by (cases "filter ?P (watchlists db)") auto
    with False c1 show ?thesis
      by (auto simp add: add_to_watchlist_ok [OF assms(2)])
  qed
  then have "filter ?P (watchlists db1) \<noteq> []"
    by auto
  then have "add_to_watchlist G later db1 ticker user_id = (False, db1)"
    by (rule add_to_watchlist_present)
  with c1 one d1 show ?thesis
    by simp
qed

theorem add_to_watchlist_idempotent_witness:
  "no_failure healthy
   \<and> add_to_watchlist healthy 10
       \<lparr>watchlists = [], search_history = [], user_preferences = []\<rparr>
       ''MSFT'' ''default_user'' =
     (True,
      \<lparr>watchlists =
         [\<lparr>w_id = 1, w_user_id = ''default_user'', w_ticker = ''MSFT'', added_at = 10\<rparr>],
       search_history = [], user_preferences = []\<rparr>)
   \<and> add_to_watchlist healthy 20
       \<lparr>watchlists =
         [\<lparr>w_id = 1, w_user_id = ''default_user'', w_ticker = ''MSFT'', added_at = 10\<rparr>],
       search_history = [], user_preferences = []\<rparr>
       ''MSFT'' ''default_user'' =
     (False,
      \<lparr>watchlists =
         [\<lparr>w_id = 1, w_user_id = ''default_user'', w_ticker = ''MSFT'', added_at = 10\<rparr>],
       search_history = [], user_preferences = []\<rparr>)"
proof -
  let ?db = "\<lparr>watchlists = [], search_history = [], user_preferences = []\<rparr>"
  have h: "no_failure healthy"
    by (simp add: no_failure_def healthy_def get_connection_def)
  have l: "distinct (map (\<lambda>r. (w_user_id r, w_ticker r)) (watchlists ?db))"
    by simp
  have first: "add_to_watchlist healthy 10 ?db ''MSFT'' ''default_user'' =
     (True,
      \<lparr>watchlists =
         [\<lparr>w_id = 1, w_user_id = ''default_user'', w_ticker = ''MSFT'', added_at = 10\<rparr>],
       search_history = [], user_preferences = []\<rparr>)"
    by (simp add: add_to_watchlist_def add_to_watchlist_try_def healthy_def
        get_connection_def attempt_def bind_def)
  show ?thesis
    using add_to_watchlist_idempotent [OF l h, where now = 10 and G = healthy and later = 20
        and ticker = "''MSFT''" and user_id = "''default_user''"] h
    unfolding first by (auto split: prod.splits)
qed

subsection \<open>User preferences\<close>

text \<open>
  C8: \<^verbatim>\<open>update_user_preferences\<close> keeps at most one row for each user, whatever fails. The
  table grows only by the one new row, and only when the user had none. Without failure
  an existing row (SQLite row ids start at 1, so its id is not 0) is overwritten in
  place, and a user without a row gets a new one.
\<close>

theorem update_user_preferences_one_row:
  assumes "distinct (map pref_user_id (user_preferences db))"
  shows "case update_user_preferences F now db prefs user_id of (ok, db') \<Rightarrow>
    distinct (map pref_user_id (user_preferences db'))
    \<and> (length (user_preferences db') \<noteq> length (user_preferences db) \<longrightarrow>
         find (\<lambda>r. pref_user_id r = user_id) (user_preferences db) = None
         \<and> user_preferences db' = user_preferences db @
             [new_row prefs (next_rowid (map pref_id (user_preferences db))) user_id now])
    \<and> (no_failure F \<longrightarrow>
         (case find (\<lambda>r. pref_user_id r = user_id) (user_preferences db) of
            Some r \<Rightarrow>
              pref_id r \<noteq> 0 \<longrightarrow>
                ok \<and> user_preferences db' =
                  map (\<lambda>r. if pref_user_id r = user_id then set_preferences prefs r else r)
                    (user_preferences db)
          | None \<Rightarrow>
              ok \<and> user_preferences db' = user_preferences db @
                [new_row prefs (next_rowid (map pref_id (user_preferences db))) user_id now]))"
proof -
  let ?rows = "user_preferences db"
  obtain ok db' where res: "update_user_preferences F now db prefs user_id = (ok, db')"
    by (cases "update_user_preferences F now db prefs user_id")
  have inv: "distinct (map pref_user_id (user_preferences db'))"
    using update_user_preferences_cases [of F now db prefs user_id] res assms
    by (auto simp add: user_ids_set_preferences new_row_def find_None_set)
  have ins: "find (\<lambda>r. pref_user_id r = user_id) ?rows = None
      \<and> user_preferences db' = ?rows @ [new_row prefs (next_rowid (map pref_id ?rows)) user_id now]"
    if "length (user_preferences db') \<noteq> length ?rows"
    using update_user_preferences_cases [of F now db prefs user_id] res that
    by auto
  have ok: "case find (\<lambda>r. pref_user_id r = user_id) ?rows of
            Some r \<Rightarrow>
              pref_id r \<noteq> 0 \<longrightarrow>
                ok \<and> user_preferences db' =
                  map (\<lambda>r. if pref_user_id r = user_id then set_preferences prefs r else r) ?rows
          | None \<Rightarrow>
              ok \<and> user_preferences db' = ?rows @
                [new_row prefs (next_rowid (map pref_id ?rows)) user_id now]"
    if "no_failure F"
    using res unfolding update_user_preferences_ok [OF that]
    by (auto split: option.splits)
  from inv ins ok show ?thesis
    unfolding res by simp
qed

theorem update_user_preferences_one_row_witness:
  "distinct (map pref_user_id
     [new_row default_prefs 1 ''default_user'' 5])
   \<and> update_user_preferences healthy 9
       \<lparr>watchlists = [], search_history = [],
        user_preferences = [new_row default_prefs 1 ''default_user'' 5]\<rparr>
       \<lparr>default_ticker = ''MSFT'', default_period = ''1 Month'', theme = ''dark'',
        show_ma50 = 0, show_ma200 = 1\<rparr> ''default_user'' =
     (True,
      \<lparr>watchlists = [], search_history = [],
       user_preferences =
         [\<lparr>default_ticker = ''MSFT'', default_period = ''1 Month'', theme = ''dark'',
           show_ma50 = 0, show_ma200 = 1,
           pref_id = 1, pref_user_id = ''default_user'', updated_at = 5\<rparr>]\<rparr>)"
proof -
  let ?db = "\<lparr>watchlists = [], search_history = [],
        user_preferences = [new_row default_prefs 1 ''default_user'' 5]\<rparr>"
  let ?p = "\<lparr>default_ticker = ''MSFT'', default_period = ''1 Month'', theme = ''dark'',
        show_ma50 = 0, show_ma200 = 1\<rparr>"
  have d: "distinct (map pref_user_id (user_preferences ?db))"
    by simp
  have h: "no_failure healthy"
    by (simp add: no_failure_def healthy_def get_connection_def)
  obtain ok db' where r: "update_user_preferences healthy 9 ?db ?p ''default_user'' = (ok, db')"
    by (cases "update_user_preferences healthy 9 ?db ?p ''default_user''")
  have same: "length (user_preferences db') = length (user_preferences ?db)"
    using update_user_preferences_one_row [OF d, where F = healthy and now = 9 and prefs = ?p
        and user_id = "''default_user''"] r
    by (auto simp add: new_row_def)
  have "ok \<and> user_preferences db' =
      map (\<lambda>r. if pref_user_id r = ''default_user'' then set_preferences ?p r else r)
        (user_preferences ?db)"
    using update_user_preferences_one_row [OF d, where F = healthy and now = 9 and prefs = ?p
        and user_id = "''default_user''"] r h
    by (simp add: new_row_def)
  moreover have "watchlists db' = [] \<and> search_history db' = []"
    using update_user_preferences_cases [of healthy 9 ?db ?p "''default_user''"] r
    by auto
  ultimately have "ok" "db' = \<lparr>watchlists = [], search_history = [],
       user_preferences =
         [\<lparr>default_ticker = ''MSFT'', default_period = ''1 Month'', theme = ''dark'',
           show_ma50 = 0, show_ma200 = 1,
           pref_id = 1, pref_user_id = ''default_user'', updated_at = 5\<rparr>]\<rparr>"
    by (simp_all add: new_row_def set_preferences_def default_prefs_def)
  with r d show ?thesis by simp
qed

text \<open>
  C9: when a storage call of an operation raises, the operation returns its default (the
  empty list, False, or the default preferences) and the tables stay as they were. The
  first part is a failure to connect or to query, the second a failure to connect, to
  write or to commit.
\<close>

theorem storage_failure_safe_default:
  "(get_connection F \<noteq> Inr () \<or> F Query \<noteq> None \<longrightarrow>
      get_watchlist F db user_id = []
      \<and> get_recent_searches F db user_id limit = []
      \<and> add_to_watchlist F now db ticker user_id = (False, db)
      \<and> get_user_preferences F now db user_id = (with_keys default_prefs None None None, db)
      \<and> update_user_preferences F now db prefs user_id = (False, db))
   \<and> (get_connection F \<noteq> Inr () \<or> F Write \<noteq> None \<or> F Commit \<noteq> None \<longrightarrow>
      remove_from_watchlist F db ticker user_id = (False, db)
      \<and> add_to_search_history F now db ticker user_id = (False, db)
      \<and> add_to_watchlist F now db ticker user_id = (False, db)
      \<and> update_user_preferences F now db prefs user_id = (False, db)
      \<and> (find (\<lambda>r. pref_user_id r = user_id) (user_preferences db) = None \<longrightarrow>
           get_user_preferences F now db user_id =
             (with_keys default_prefs None None None, db)))"
proof -
  have q: "isl (get_watchlist_try F db user_id)"
      "isl (get_recent_searches_try F db user_id limit)"
      "isl (add_to_watchlist_try F now db ticker user_id)"
      "isl (get_user_preferences_try F now db user_id)"
      "isl (update_user_preferences_try F now db prefs user_id)"
    if "get_connection F \<noteq> Inr () \<or> F Query \<noteq> None"
    using that
    by (auto simp add: get_watchlist_try_def get_recent_searches_try_def
        add_to_watchlist_try_def get_user_preferences_try_def
        update_user_preferences_try_def isl_bind isl_attempt not_Inr_unit
        split: sum.splits)
  have w: "isl (remove_from_watchlist_try F db ticker user_id)"
      "isl (add_to_search_history_try F now db ticker user_id)"
      "isl (update_user_preferences_try F now db prefs user_id)"
    if "get_connection F \<noteq> Inr () \<or> F Write \<noteq> None \<or> F Commit \<noteq> None"
    using that
    by (auto simp add: remove_from_watchlist_try_def add_to_search_history_try_def
        update_user_preferences_try_def Let_def isl_bind isl_attempt not_Inr_unit
        split: sum.splits)
  have a: "add_to_watchlist F now db ticker user_id = (False, db)"
    if "get_connection F \<noteq> Inr () \<or> F Write \<noteq> None \<or> F Commit \<noteq> None"
  proof (cases "find (\<lambda>r. w_user_id r = user_id \<and> w_ticker r = ticker) (watchlists db)")
    case None
    then have "isl (add_to_watchlist_try F now db ticker user_id)"
      using that
      by (auto simp add: add_to_watchlist_try_def isl_bind isl_attempt not_Inr_unit
          split: sum.splits)
    then show ?thesis
      by (simp add: add_to_watchlist_def isl_def split: sum.splits) auto
  next
    case (Some r)
    then have "filter (\<lambda>r. w_user_id r = user_id \<and> w_ticker r = ticker) (watchlists db) \<noteq> []"
      by (simp flip: find_filter_empty)
    then show ?thesis
      by (rule add_to_watchlist_present)
  qed
  have g: "get_user_preferences F now db user_id = (with_keys default_prefs None None None, db)"
    if "get_connection F \<noteq> Inr () \<or> F Write \<noteq> None \<or> F Commit \<noteq> None"
      and "find (\<lambda>r. pref_user_id r = user_id) (user_preferences db) = None"
  proof -
    have "isl (get_user_preferences_try F now db user_id)"
      using that
      by (auto simp add: get_user_preferences_try_def isl_bind isl_attempt not_Inr_unit
          split: sum.splits)
    then show ?thesis
      by (auto simp add: get_user_preferences_def isl_def)
  qed
  show ?thesis
    using q w a g
    by (auto simp add: get_watchlist_def get_recent_searches_def add_to_watchlist_def
        get_user_preferences_def update_user_preferences_def remove_from_watchlist_def
        add_to_search_history_def isl_def)
qed

theorem storage_failure_safe_default_witness:
  "get_connection unavailable \<noteq> Inr ()
   \<and> get_watchlist unavailable
        \<lparr>watchlists = [\<lparr>w_id = 1, w_user_id = ''default_user'', w_ticker = ''AAPL'', added_at = 3\<rparr>],
         search_history = [], user_preferences = []\<rparr> ''default_user'' = []
   \<and> add_to_watchlist unavailable 7
        \<lparr>watchlists = [\<lparr>w_id = 1, w_user_id = ''default_user'', w_ticker = ''AAPL'', added_at = 3\<rparr>],
         search_history = [], user_preferences = []\<rparr> ''MSFT'' ''default_user'' =
      (False,
        \<lparr>watchlists = [\<lparr>w_id = 1, w_user_id = ''default_user'', w_ticker = ''AAPL'', added_at = 3\<rparr>],
         search_history = [], user_preferences = []\<rparr>)
   \<and> get_user_preferences unavailable 7
        \<lparr>watchlists = [\<lparr>w_id = 1, w_user_id = ''default_user'', w_ticker = ''AAPL'', added_at = 3\<rparr>],
         search_history = [], user_preferences = []\<rparr> ''default_user'' =
      (\<lparr>default_ticker = ''AAPL'', default_period = ''1 Year'', theme = ''light'',
        show_ma50 = 1, show_ma200 = 1,
        key_id = None, key_user_id = None, key_updated_at = None\<rparr>,
        \<lparr>watchlists = [\<lparr>w_id = 1, w_user_id = ''default_user'', w_ticker = ''AAPL'', added_at = 3\<rparr>],
         search_history = [], user_preferences = []\<rparr>)"
proof -
  have u: "get_connection unavailable \<noteq> Inr ()"
    by (simp add: unavailable_def get_connection_def)
  show ?thesis
    using u storage_failure_safe_default [where F = unavailable and now = 7
        and db = "\<lparr>watchlists = [\<lparr>w_id = 1, w_user_id = ''default_user'', w_ticker = ''AAPL'', added_at = 3\<rparr>],
         search_history = [], user_preferences = []\<rparr>"
        and user_id = "''default_user''" and ticker = "''MSFT''"]
    by (simp add: with_keys_def default_prefs_def)
qed

text \<open>
  C10: for a user without a preferences row, \<^verbatim>\<open>get_user_preferences\<close> on a storage without
  failure returns the defaults and appends a row holding them, so the next read finds
  that row and returns it.
\<close>

theorem get_user_preferences_inserts_defaults:
  assumes "no_failure F"
    and "find (\<lambda>r. pref_user_id r = user_id) (user_preferences db) = None"
  shows "case get_user_preferences F now db user_id of (d, db') \<Rightarrow>
    d = with_keys default_prefs None (Some user_id) (Some now)
    \<and> default_ticker d = ''AAPL'' \<and> default_period d = ''1 Year'' \<and> theme d = ''light''
    \<and> show_ma50 d = 1 \<and> show_ma200 d = 1
    \<and> user_preferences db' = user_preferences db @
         [new_row default_prefs (next_rowid (map pref_id (user_preferences db))) user_id now]
    \<and> db' \<noteq> db
    \<and> find (\<lambda>r. pref_user_id r = user_id) (user_preferences db') =
         Some (new_row default_prefs (next_rowid (map pref_id (user_preferences db))) user_id now)
    \<and> (no_failure G \<longrightarrow>
         get_user_preferences G later db' user_id =
           (row_dict (new_row default_prefs (next_rowid (map pref_id (user_preferences db)))
              user_id now), db'))"
proof -
  let ?r = "new_row default_prefs (next_rowid (map pref_id (user_preferences db))) user_id now"
  let ?db' = "db\<lparr>user_preferences := user_preferences db @ [?r]\<rparr>"
  have first: "get_user_preferences F now db user_id =
      (with_keys default_prefs None (Some user_id) (Some now), ?db')"
    using assms(2) by (simp add: get_user_preferences_ok [OF assms(1)])
  have found: "find (\<lambda>r. pref_user_id r = user_id) (user_preferences ?db') = Some ?r"
    using assms(2) by (simp add: find_append_new new_row_def)
  have again: "get_user_preferences G later ?db' user_id = (row_dict ?r, ?db')"
    if "no_failure G"
    unfolding get_user_preferences_ok [OF that] found by simp
  have changed: "?db' \<noteq> db"
  proof
    assume "?db' = db"
    then have "user_preferences ?db' = user_preferences db"
      by simp
    then show False
      by simp
  qed
  show ?thesis
    unfolding first using found again changed
    by (simp add: with_keys_def default_prefs_def)
qed

theorem get_user_preferences_inserts_defaults_witness:
  "no_failure healthy
   \<and> get_user_preferences healthy 11
       \<lparr>watchlists = [], search_history = [], user_preferences = []\<rparr> ''default_user'' =
     (\<lparr>default_ticker = ''AAPL'', default_period = ''1 Year'', theme = ''light'',
       show_ma50 = 1, show_ma200 = 1,
       key_id = None, key_user_id = Some ''default_user'', key_updated_at = Some 11\<rparr>,
      \<lparr>watchlists = [], search_history = [],
       user_preferences =
         [\<lparr>default_ticker = ''AAPL'', default_period = ''1 Year'', theme = ''light'',
           show_ma50 = 1, show_ma200 = 1,
           pref_id = 1, pref_user_id = ''default_user'', updated_at = 11\<rparr>]\<rparr>)"
proof -
  let ?db = "\<lparr>watchlists = [], search_history = [], user_preferences = []\<rparr>"
  have h: "no_failure healthy"
    by (simp add: no_failure_def healthy_def get_connection_def)
  have n: "find (\<lambda>r. pref_user_id r = ''default_user'') (user_preferences ?db) = None"
    by simp
  obtain d db' where r: "get_user_preferences healthy 11 ?db ''default_user'' = (d, db')"
    by (cases "get_user_preferences healthy 11 ?db ''default_user''")
  have "watchlists db' = [] \<and> search_history db' = []"
    using r by (simp add: get_user_preferences_ok [OF h]) auto
  moreover have "d = with_keys default_prefs None (Some ''default_user'') (Some 11)
      \<and> user_preferences db' = [new_row default_prefs 1 ''default_user'' 11]"
    using get_user_preferences_inserts_defaults [OF h n, where now = 11] r by simp
  ultimately show ?thesis
    using h r by (simp add: with_keys_def new_row_def default_prefs_def)
qed

end
